theory Spec2Isabelle
  imports Complex_Main
begin

section \<open>The stored value: src/engine/valueEntry.ts\<close>

text \<open>
  \<^verbatim>\<open>export type RedisDataType = "string" | "list" | "set" | "hash" | "stream";\<close>
\<close>

datatype RedisDataType = String_t | List_t | Set_t | Hash_t | Stream_t

text \<open>
  \<^verbatim>\<open>class ValueEntry<T>\<close> with its four readonly fields. Instants are the integral
  millisecond counts that \<^verbatim>\<open>Date.now()\<close> returns, so they are modelled as \<open>int\<close>.
  The fields \<^verbatim>\<open>type\<close> and \<^verbatim>\<open>value\<close> are called \<open>etype\<close> and \<open>evalue\<close> here.
\<close>

record 'v ValueEntry =
  etype :: RedisDataType
  evalue :: 'v
  createdAt :: int
  updatedAt :: int

text \<open>
  The constructor. \<open>now\<close> is the value of \<^verbatim>\<open>Date.now()\<close> read in its first line;
  the optional parameter \<^verbatim>\<open>createdAt?\<close> is an \<open>option\<close>, and
  \<^verbatim>\<open>createdAt ?? now\<close> falls back to \<open>now\<close> when it is missing.
\<close>

definition ValueEntry_new :: "int \<Rightarrow> RedisDataType \<Rightarrow> 'v \<Rightarrow> int option \<Rightarrow> 'v ValueEntry" where
  "ValueEntry_new now t v created =
     \<lparr> etype = t, evalue = v,
       createdAt = (case created of None \<Rightarrow> now | Some c \<Rightarrow> c),
       updatedAt = now \<rparr>"

text \<open>\<^verbatim>\<open>cloneWithValue(value) { return new ValueEntry(this.type, value, this.createdAt); }\<close>\<close>

definition cloneWithValue :: "int \<Rightarrow> 'v ValueEntry \<Rightarrow> 'v \<Rightarrow> 'v ValueEntry" where
  "cloneWithValue now this v = ValueEntry_new now (etype this) v (Some (createdAt this))"

section \<open>One keyspace with lazy expiry: src/engine/database.ts\<close>

text \<open>
  The two private \<^verbatim>\<open>Map\<close>s of a \<^verbatim>\<open>Database\<close>. A \<^verbatim>\<open>ValueEntry\<close> has only readonly
  fields, so the keyspace holds entries as values. Every method that reads the clock
  takes the value of \<^verbatim>\<open>Date.now()\<close> as its first argument; every method that writes
  returns the database after the call.
\<close>

record 'v Database =
  keyspace :: "string \<rightharpoonup> 'v ValueEntry"
  expirations :: "string \<rightharpoonup> int"

definition Database_new :: "'v Database" where
  "Database_new = \<lparr> keyspace = Map.empty, expirations = Map.empty \<rparr>"

text \<open>
  \<^verbatim>\<open>const expiry = this.expirations.get(key);\<close>
  \<^verbatim>\<open>return expiry !== undefined && Date.now() >= expiry;\<close>
\<close>

definition Database_isExpired :: "int \<Rightarrow> string \<Rightarrow> 'v Database \<Rightarrow> bool" where
  "Database_isExpired now key db =
     (case expirations db key of None \<Rightarrow> False | Some expiry \<Rightarrow> now \<ge> expiry)"

text \<open>\<^verbatim>\<open>this.keyspace.delete(key); this.expirations.delete(key);\<close>\<close>

definition Database_delete :: "string \<Rightarrow> 'v Database \<Rightarrow> 'v Database" where
  "Database_delete key db =
     db\<lparr> keyspace := (keyspace db)(key := None),
         expirations := (expirations db)(key := None) \<rparr>"

text \<open>
  \<^verbatim>\<open>if (this.isExpired(key)) { this.delete(key); return null; }\<close>
  \<^verbatim>\<open>return this.keyspace.get(key) || null;\<close>
  The result \<open>None\<close> is \<^verbatim>\<open>null\<close>; a stored entry is an object and so never falsy.
\<close>

definition Database_get :: "int \<Rightarrow> string \<Rightarrow> 'v Database \<Rightarrow> 'v ValueEntry option \<times> 'v Database" where
  "Database_get now key db =
     (if Database_isExpired now key db then (None, Database_delete key db)
      else (keyspace db key, db))"

text \<open>\<^verbatim>\<open>this.keyspace.set(key, entry);\<close>\<close>

definition Database_set :: "string \<Rightarrow> 'v ValueEntry \<Rightarrow> 'v Database \<Rightarrow> 'v Database" where
  "Database_set key entry db = db\<lparr> keyspace := (keyspace db)(key \<mapsto> entry) \<rparr>"

text \<open>
  \<^verbatim>\<open>if (!this.keyspace.has(key)) return;\<close>
  \<^verbatim>\<open>this.expirations.set(key, timestampMs);\<close>
\<close>

definition Database_setExpiry :: "string \<Rightarrow> int \<Rightarrow> 'v Database \<Rightarrow> 'v Database" where
  "Database_setExpiry key timestampMs db =
     (if keyspace db key = None then db
      else db\<lparr> expirations := (expirations db)(key \<mapsto> timestampMs) \<rparr>)"

text \<open>
  A caller's repeated \<^verbatim>\<open>get\<close> of one key, one call per clock reading in \<open>nows\<close>:
  the results in call order and the database after the last call.
\<close>

fun get_repeatedly :: "int list \<Rightarrow> string \<Rightarrow> 'v Database \<Rightarrow> 'v ValueEntry option list \<times> 'v Database" where
  "get_repeatedly [] key db = ([], db)"
| "get_repeatedly (now # nows) key db =
     (let (r, db') = Database_get now key db;
          (rs, db'') = get_repeatedly nows key db'
      in (r # rs, db''))"

text \<open>
  The five public operations as data, and a run of them from some database. Each call
  comes with the clock reading it sees; the clock is not assumed to be monotonic.
\<close>

datatype 'v db_op =
    Get string
  | Set string "'v ValueEntry"
  | Delete string
  | SetExpiry string int
  | IsExpired string

fun db_step :: "int \<Rightarrow> 'v db_op \<Rightarrow> 'v Database \<Rightarrow> 'v Database" where
  "db_step now (Get k) db = snd (Database_get now k db)"
| "db_step now (Set k e) db = Database_set k e db"
| "db_step now (Delete k) db = Database_delete k db"
| "db_step now (SetExpiry k t) db = Database_setExpiry k t db"
| "db_step now (IsExpired k) db = (let b = Database_isExpired now k db in db)"

fun db_run :: "(int \<times> 'v db_op) list \<Rightarrow> 'v Database \<Rightarrow> 'v Database" where
  "db_run [] db = db"
| "db_run ((now, op) # ops) db = db_run ops (db_step now op db)"

text \<open>The invariant of the data model: a key with an expiry is a key with an entry.\<close>

definition expirations_within_keyspace :: "'v Database \<Rightarrow> bool" where
  "expirations_within_keyspace db \<longleftrightarrow> dom (expirations db) \<subseteq> dom (keyspace db)"

section \<open>Objects with identity\<close>

text \<open>
  Where a property depends on which object a reference denotes, objects live in a store:
  a list of objects, a reference being the position of its object. \<^verbatim>\<open>new\<close> puts the
  object behind all existing ones, and nothing is ever removed.
\<close>

definition alloc :: "'a \<Rightarrow> 'a list \<Rightarrow> nat \<times> 'a list" where
  "alloc x st = (length st, st @ [x])"

text \<open>
  \<^verbatim>\<open>e.cloneWithValue(value)\<close> on entries with identity: \<open>this\<close> is the reference of the
  receiver in the store \<open>h\<close>; the result is the reference of the new entry and the store
  after the call.
\<close>

definition cloneWithValue_at :: "int \<Rightarrow> nat \<Rightarrow> 'v \<Rightarrow> 'v ValueEntry list \<Rightarrow> nat \<times> 'v ValueEntry list" where
  "cloneWithValue_at now this v h = alloc (cloneWithValue now (h ! this) v) h"

section \<open>The error taxonomy: src/commands/errors.ts\<close>

text \<open>
  \<^verbatim>\<open>type Meta = { command?: string; dbIndex?: number; clientId?: string; argsCount?: number }\<close>.
  A missing property is \<open>None\<close>. The properties \<^verbatim>\<open>dbIndex\<close> and \<^verbatim>\<open>clientId\<close> carry the
  prefix \<open>meta_\<close> here, the names without it being those of the context's fields.
\<close>

record Meta =
  command :: "string option"
  meta_dbIndex :: "int option"
  meta_clientId :: "string option"
  argsCount :: "int option"

definition no_meta :: Meta where
  "no_meta = \<lparr> command = None, meta_dbIndex = None, meta_clientId = None, argsCount = None \<rparr>"

text \<open>The classes of the taxonomy; \<^verbatim>\<open>this.name = new.target.name\<close> stores the class.\<close>

datatype error_class = CommandError | UnknownCommandError | ArityError | InvalidArgumentError

text \<open>
  An instance of \<^verbatim>\<open>CommandError\<close> or of a subclass. \<open>'d\<close> is the type of a
  \<^verbatim>\<open>Detail\<close>. The field \<^verbatim>\<open>name\<close> is called \<open>error_name\<close> here.
\<close>

record 'd CommandError_obj =
  error_name :: error_class
  message :: string
  meta :: Meta
  details :: "'d list"

text \<open>
  The base constructor, called by every subclass through \<^verbatim>\<open>super(message, meta)\<close>:
  \<^verbatim>\<open>readonly details: Detail[] = [];\<close> and \<^verbatim>\<open>this.meta = Object.freeze(meta);\<close>
\<close>

definition CommandError_new :: "error_class \<Rightarrow> string \<Rightarrow> Meta \<Rightarrow> 'd CommandError_obj" where
  "CommandError_new cls msg m = \<lparr> error_name = cls, message = msg, meta = m, details = [] \<rparr>"

text \<open>
  \<^verbatim>\<open>addDetails(detail: Detail | Detail[])\<close>: \<open>Inr ds\<close> is the branch
  \<^verbatim>\<open>Array.isArray(detail)\<close>, which pushes every element; \<open>Inl d\<close> pushes the one detail.
  The method mutates the receiver; the model returns the receiver after the call.
\<close>

definition addDetails :: "'d + 'd list \<Rightarrow> 'd CommandError_obj \<Rightarrow> 'd CommandError_obj" where
  "addDetails detail this =
     (case detail of
        Inr ds \<Rightarrow> this\<lparr> details := details this @ ds \<rparr>
      | Inl d \<Rightarrow> this\<lparr> details := details this @ [d] \<rparr>)"

text \<open>
  The calls of \<^verbatim>\<open>addDetails\<close> that an error receives over its life, in order.
\<close>

fun addDetails_all :: "('d + 'd list) list \<Rightarrow> 'd CommandError_obj \<Rightarrow> 'd CommandError_obj" where
  "addDetails_all [] this = this"
| "addDetails_all (detail # rest) this = addDetails_all rest (addDetails detail this)"

text \<open>The details that one call of \<^verbatim>\<open>addDetails\<close> pushes.\<close>

definition pushed :: "'d + 'd list \<Rightarrow> 'd list" where
  "pushed detail = (case detail of Inl d \<Rightarrow> [d] | Inr ds \<Rightarrow> ds)"

text \<open>
  A template literal renders an integral number in decimal (for magnitudes below
  \<open>10\<^sup>2\<^sup>1\<close>, beyond which JavaScript switches to exponent notation).
\<close>

fun digits :: "nat \<Rightarrow> string" where
  "digits n =
     (if n < 10 then [''0123456789'' ! n]
      else digits (n div 10) @ [''0123456789'' ! (n mod 10)])"

definition show_int :: "int \<Rightarrow> string" where
  "show_int i = (if i < 0 then CHR ''-'' # digits (nat (- i)) else digits (nat i))"

definition quote :: string where
  "quote = [CHR 0x27]"

text \<open>\<^verbatim>\<open>super(`Unknown command '${command}'`, { command });\<close>\<close>

definition UnknownCommandError_new :: "string \<Rightarrow> 'd CommandError_obj" where
  "UnknownCommandError_new cmd =
     CommandError_new UnknownCommandError
       (''Unknown command '' @ quote @ cmd @ quote)
       (no_meta\<lparr> command := Some cmd \<rparr>)"

text \<open>
  \<^verbatim>\<open>type ArityErrorDetails = { min: number; max: number; actual: number }\<close>; the first
  two are called \<open>min'\<close> and \<open>max'\<close> here.
\<close>

record ArityErrorDetails =
  min' :: int
  max' :: int
  actual :: int

text \<open>
  \<^verbatim>\<open>constructor(command: string, meta: ArityErrorDetails = { min: 0, max: 0, actual: 0 })\<close>;
  \<open>None\<close> is the call that leaves the second argument out.
\<close>

definition ArityError_new :: "string \<Rightarrow> ArityErrorDetails option \<Rightarrow> 'd CommandError_obj" where
  "ArityError_new cmd meta_arg =
     (let m = (case meta_arg of
                 None \<Rightarrow> \<lparr> min' = 0, max' = 0, actual = 0 \<rparr>
               | Some given \<Rightarrow> given)
      in CommandError_new ArityError
           (''Wrong number of arguments for '' @ quote @ cmd @ quote @ '' (expected ''
              @ show_int (min' m) @ ''..'' @ show_int (max' m)
              @ '', got '' @ show_int (actual m) @ '')'')
           (no_meta\<lparr> command := Some cmd, argsCount := Some (actual m) \<rparr>))"

text \<open>\<^verbatim>\<open>constructor(message: string, meta: Meta = {}) { super(message, meta); }\<close>\<close>

definition InvalidArgumentError_new :: "string \<Rightarrow> Meta option \<Rightarrow> 'd CommandError_obj" where
  "InvalidArgumentError_new msg meta_arg =
     CommandError_new InvalidArgumentError msg
       (case meta_arg of None \<Rightarrow> no_meta | Some m \<Rightarrow> m)"

text \<open>
  What a call can throw: an error of the taxonomy, the plain \<^verbatim>\<open>Error\<close> of the engine
  with its message, or the \<^verbatim>\<open>ReferenceError\<close> of the runtime for an identifier that
  is bound nowhere.
\<close>

datatype 'd thrown =
    Thrown "'d CommandError_obj"
  | Error string
  | ReferenceError string

section \<open>The engine: its databases and their lookup\<close>

text \<open>
  Modelled from the spec: the constant \<^verbatim>\<open>DEFAULT_DB_COUNT\<close> that the engine imports from
  \<^verbatim>\<open>../configs\<close>, a file not among the sources; the spec gives the default as 16.
\<close>

definition DEFAULT_DB_COUNT :: int where
  "DEFAULT_DB_COUNT = 16"

text \<open>
  The databases are objects that commands mutate through references, so they live in a
  store and the engine's array holds references.
\<close>

record Engine =
  databases :: "nat list"
  dbCount :: int

text \<open>
  \<^verbatim>\<open>Array.from({ length: n }, () => new Database())\<close>: the callback runs once per
  position, and each run allocates a database of its own.
\<close>

fun new_databases :: "nat \<Rightarrow> 'v Database list \<Rightarrow> nat list \<times> 'v Database list" where
  "new_databases 0 st = ([], st)"
| "new_databases (Suc n) st =
     (let (a, st') = alloc Database_new st;
          (as, st'') = new_databases n st'
      in (a # as, st''))"

text \<open>
  \<^verbatim>\<open>constructor(dbCount: number = DEFAULT_DB_COUNT)\<close>. The count is an integer here;
  \<^verbatim>\<open>Array.from\<close> takes a negative length as 0, which is what \<open>nat\<close> does.
\<close>

definition Engine_new :: "int option \<Rightarrow> 'v Database list \<Rightarrow> Engine \<times> 'v Database list" where
  "Engine_new count_arg st =
     (let n = (case count_arg of None \<Rightarrow> DEFAULT_DB_COUNT | Some c \<Rightarrow> c);
          (as, st') = new_databases (nat n) st
      in (\<lparr> databases = as, dbCount = n \<rparr>, st'))"

text \<open>
  \<^verbatim>\<open>if (index < 0 || index >= this.dbCount) throw new Error('Database index out of range');\<close>
  \<^verbatim>\<open>return this.databases[index];\<close>
  The index is an integer here. Reading an array past its end gives \<^verbatim>\<open>undefined\<close>,
  which is the result \<open>None\<close>.
\<close>

definition getDatabase :: "Engine \<Rightarrow> int \<Rightarrow> 'd thrown + nat option" where
  "getDatabase this index =
     (if index < 0 \<or> index \<ge> dbCount this then Inl (Error ''Database index out of range'')
      else Inr (if nat index < length (databases this)
                then Some (databases this ! nat index) else None))"

text \<open>
  A method call on the database behind a reference: the store after the call. The three
  writing methods are the ones a caller holding the reference can use to change it.
\<close>

definition at_ref :: "nat \<Rightarrow> ('v Database \<Rightarrow> 'v Database) \<Rightarrow> 'v Database list \<Rightarrow> 'v Database list" where
  "at_ref a f st = st[a := f (st ! a)]"

datatype 'v db_write = Write_set string "'v ValueEntry" | Write_delete string | Write_setExpiry string int

fun apply_write :: "'v db_write \<Rightarrow> 'v Database \<Rightarrow> 'v Database" where
  "apply_write (Write_set k e) db = Database_set k e db"
| "apply_write (Write_delete k) db = Database_delete k db"
| "apply_write (Write_setExpiry k t) db = Database_setExpiry k t db"

section \<open>Commands, registry, dispatcher\<close>

text \<open>src/commands/context.ts: \<^verbatim>\<open>readonly dbIndex: number; readonly clientId?: string;\<close>\<close>

record CommandContext =
  dbIndex :: int
  clientId :: "string option"

text \<open>
  The arguments \<^verbatim>\<open>execute\<close> receives are of type \<^verbatim>\<open>any\<close>: what \<^verbatim>\<open>parse\<close> returned, or
  the raw list itself when the command has no \<^verbatim>\<open>parse\<close>.
\<close>

datatype ('raw, 'args) cmd_args = RawArgs "'raw list" | ParsedArgs 'args

text \<open>
  src/commands/command.ts. \<^verbatim>\<open>arity: { min; max }\<close> is the pair of fields \<open>arity_min\<close>
  and \<open>arity_max\<close>; the optional method \<^verbatim>\<open>parse?\<close> is an \<open>option\<close>. \<open>'w\<close> is the state
  \<^verbatim>\<open>execute\<close> can read and change; it returns what it returned or threw, and the state
  it left behind.
\<close>

record ('raw, 'args, 'res, 'd, 'w) Command =
  name :: string
  arity_min :: int
  arity_max :: int
  isWrite :: bool
  execute :: "Engine \<Rightarrow> CommandContext \<Rightarrow> ('raw, 'args) cmd_args \<Rightarrow> 'w \<Rightarrow> ('d thrown + 'res) \<times> 'w"
  parse :: "('raw list \<Rightarrow> 'd thrown + 'args) option"

text \<open>
  \<^verbatim>\<open>String.prototype.toUpperCase\<close> is a built-in of the language. The registry and the
  dispatcher use nothing of it but its results, so it is a parameter, called
  \<open>toUpperCase\<close>, of every definition that calls it. Two names are equal up to case
  when it maps them to the same string.
\<close>

text \<open>The registry: \<^verbatim>\<open>private commands = new Map<string, Command>();\<close>\<close>

record ('raw, 'args, 'res, 'd, 'w) Registry =
  commands :: "string \<rightharpoonup> ('raw, 'args, 'res, 'd, 'w) Command"

definition Registry_new :: "('raw, 'args, 'res, 'd, 'w) Registry" where
  "Registry_new = \<lparr> commands = Map.empty \<rparr>"

text \<open>
  \<^verbatim>\<open>const commandName = command.name.toUpperCase();\<close>
  \<^verbatim>\<open>if (this.commands.has(commandName)) throw new CommandError(`Command '${commandName}' is already registered`);\<close>
  \<^verbatim>\<open>this.commands.set(commandName, command);\<close>
\<close>

definition Registry_register ::
  "(string \<Rightarrow> string) \<Rightarrow> ('raw, 'args, 'res, 'd, 'w) Command \<Rightarrow> ('raw, 'args, 'res, 'd, 'w) Registry
   \<Rightarrow> 'd thrown + ('raw, 'args, 'res, 'd, 'w) Registry" where
  "Registry_register toUpperCase cmd this =
     (let commandName = toUpperCase (name cmd)
      in if commands this commandName \<noteq> None
         then Inl (Thrown (CommandError_new CommandError
                (''Command '' @ quote @ commandName @ quote @ '' is already registered'') no_meta))
         else Inr (this\<lparr> commands := (commands this)(commandName \<mapsto> cmd) \<rparr>))"

text \<open>\<^verbatim>\<open>return this.commands.get(name.toUpperCase()) || null;\<close>\<close>

definition Registry_get ::
  "(string \<Rightarrow> string) \<Rightarrow> string \<Rightarrow> ('raw, 'args, 'res, 'd, 'w) Registry
   \<Rightarrow> ('raw, 'args, 'res, 'd, 'w) Command option" where
  "Registry_get toUpperCase nm this = commands this (toUpperCase nm)"

text \<open>A registry filled at startup: the commands registered one by one, none refused.\<close>

fun register_all ::
  "(string \<Rightarrow> string) \<Rightarrow> ('raw, 'args, 'res, 'd, 'w) Command list \<Rightarrow> ('raw, 'args, 'res, 'd, 'w) Registry
   \<Rightarrow> 'd thrown + ('raw, 'args, 'res, 'd, 'w) Registry" where
  "register_all toUpperCase [] reg = Inr reg"
| "register_all toUpperCase (c # cs) reg =
     (case Registry_register toUpperCase c reg of
        Inl e \<Rightarrow> Inl e
      | Inr reg' \<Rightarrow> register_all toUpperCase cs reg')"

text \<open>src/commands/dispatcher.ts: the two private fields and \<^verbatim>\<open>dispatch\<close>.\<close>

record ('raw, 'args, 'res, 'd, 'w) CommandDispatcher =
  engine :: Engine
  registry :: "('raw, 'args, 'res, 'd, 'w) Registry"

definition arity_violated :: "('raw, 'args, 'res, 'd, 'w) Command \<Rightarrow> 'raw list \<Rightarrow> bool" where
  "arity_violated cmd rawArgs \<longleftrightarrow>
     int (length rawArgs) < arity_min cmd \<or> int (length rawArgs) > arity_max cmd"

text \<open>
  \<^verbatim>\<open>const command = this.registry.get(commandName);\<close>
  \<^verbatim>\<open>if (!command) throw new UnknownCommandError(commandName);\<close>
  \<^verbatim>\<open>if (rawArgs.length < command.arity.min || rawArgs.length > command.arity.max) {\<close>
  \<^verbatim>\<open>  throw new ArityError(commandName); }\<close>
  \<^verbatim>\<open>const args = command.parse ? command.parse(rawArgs): rawArgs;\<close>
  \<^verbatim>\<open>return command.execute(this.engine, context, args);\<close>
\<close>

definition dispatch ::
  "(string \<Rightarrow> string) \<Rightarrow> ('raw, 'args, 'res, 'd, 'w) CommandDispatcher \<Rightarrow> string \<Rightarrow> 'raw list
   \<Rightarrow> CommandContext \<Rightarrow> 'w \<Rightarrow> ('d thrown + 'res) \<times> 'w" where
  "dispatch toUpperCase this commandName rawArgs context w =
     (case Registry_get toUpperCase commandName (registry this) of
        None \<Rightarrow> (Inl (Thrown (UnknownCommandError_new commandName)), w)
      | Some cmd \<Rightarrow>
          if arity_violated cmd rawArgs
          then (Inl (Thrown (ArityError_new commandName None)), w)
          else (case parse cmd of
                  None \<Rightarrow> execute cmd (engine this) context (RawArgs rawArgs) w
                | Some p \<Rightarrow>
                    (case p rawArgs of
                       Inl e \<Rightarrow> (Inl e, w)
                     | Inr args \<Rightarrow> execute cmd (engine this) context (ParsedArgs args) w)))"

section \<open>SET: the handler in src/commands/errors.ts, lines 56 to 112\<close>

text \<open>
  \<^verbatim>\<open>type Detail = string | { [key: string]: string | number | boolean }\<close>. The one
  object the handler builds is \<^verbatim>\<open>{ detailMsg: ..., arg }\<close>: a message and the raw
  argument it is about.
\<close>

datatype 'raw Detail = DetailText string | DetailObject string 'raw

text \<open>
  \<^verbatim>\<open>interface SetCommandArgs { key: string; value: string }\<close>, called \<open>args_key\<close> and
  \<open>args_value\<close> here. Both are read from an array by position, and a position past
  the end reads as \<^verbatim>\<open>undefined\<close>, which is \<open>None\<close>.
\<close>

record SetCommandArgs =
  args_key :: "string option"
  args_value :: "string option"

definition array_get :: "'a list \<Rightarrow> nat \<Rightarrow> 'a option" where
  "array_get xs i = (if i < length xs then Some (xs ! i) else None)"

text \<open>
  The callback of \<^verbatim>\<open>rawArgs.map\<close>, run over the list from the left:
  \<^verbatim>\<open>const stringArg = String(arg);\<close>
  \<^verbatim>\<open>if (!stringArg) { errors.push({ detailMsg: `Argument '${stringArg}' is not a valid string`, arg }); return ""; }\<close>
  \<^verbatim>\<open>return stringArg;\<close>
  A string is falsy exactly when it is empty. \<open>String\<close> is the built-in conversion of the
  language. The identifier \<^verbatim>\<open>errors\<close> is declared nowhere in the file, so it is looked
  up in the scope around the class: \<open>errors = None\<close> when nothing binds it, and then
  evaluating it throws a \<^verbatim>\<open>ReferenceError\<close>; \<open>errors = Some es\<close> when an array \<open>es\<close> is
  bound to it. The result is the mapped array and the binding after the loop.
\<close>

fun SetCommand_parse_map ::
  "('raw \<Rightarrow> string) \<Rightarrow> 'raw list \<Rightarrow> 'raw Detail list option
   \<Rightarrow> 'raw Detail thrown + (string list \<times> 'raw Detail list option)" where
  "SetCommand_parse_map String [] errors = Inr ([], errors)"
| "SetCommand_parse_map String (arg # rest) errors =
     (let stringArg = String arg
      in if stringArg = []
         then (case errors of
                 None \<Rightarrow> Inl (ReferenceError ''errors'')
               | Some es \<Rightarrow>
                   (case SetCommand_parse_map String rest
                           (Some (es @ [DetailObject
                              (''Argument '' @ quote @ stringArg @ quote @ '' is not a valid string'') arg])) of
                      Inl e \<Rightarrow> Inl e
                    | Inr (args, errors') \<Rightarrow> Inr ([] # args, errors')))
         else (case SetCommand_parse_map String rest errors of
                 Inl e \<Rightarrow> Inl e
               | Inr (args, errors') \<Rightarrow> Inr (stringArg # args, errors')))"

text \<open>
  The body of \<^verbatim>\<open>parse\<close> after the loop:
  \<^verbatim>\<open>if (errors.length > 0) {\<close>
  \<^verbatim>\<open>  const error = new InvalidArgumentError("Invalid argument(s) for SET command");\<close>
  \<^verbatim>\<open>  error.addDetails(errors); throw error; }\<close>
  \<^verbatim>\<open>return { key: args[0], value: args[1] };\<close>
\<close>

definition SetCommand_parse_scope ::
  "'raw Detail list option \<Rightarrow> ('raw \<Rightarrow> string) \<Rightarrow> 'raw list \<Rightarrow> 'raw Detail thrown + SetCommandArgs" where
  "SetCommand_parse_scope errors String rawArgs =
     (case SetCommand_parse_map String rawArgs errors of
        Inl e \<Rightarrow> Inl e
      | Inr (args, None) \<Rightarrow> Inl (ReferenceError ''errors'')
      | Inr (args, Some es) \<Rightarrow>
          if length es > 0
          then Inl (Thrown (addDetails (Inr es)
                 (InvalidArgumentError_new ''Invalid argument(s) for SET command'' None)))
          else Inr \<lparr> args_key = array_get args 0, args_value = array_get args 1 \<rparr>)"

text \<open>\<^verbatim>\<open>SetCommand.parse\<close> in the file as it is: nothing binds \<^verbatim>\<open>errors\<close>.\<close>

definition SetCommand_parse :: "('raw \<Rightarrow> string) \<Rightarrow> 'raw list \<Rightarrow> 'raw Detail thrown + SetCommandArgs" where
  "SetCommand_parse String rawArgs = SetCommand_parse_scope None String rawArgs"

text \<open>
  The command object: \<^verbatim>\<open>name = "SET"\<close>, \<^verbatim>\<open>arity = { min: 2, max: 2 }\<close>,
  \<^verbatim>\<open>isWrite = true\<close>. The statement of \<^verbatim>\<open>execute\<close> in line 109 does not parse
  (\<^verbatim>\<open>new ValueEntry("string", args.value).)\<close>), so \<open>execute\<close> is a parameter.
\<close>

definition SetCommand ::
  "('raw \<Rightarrow> string)
   \<Rightarrow> (Engine \<Rightarrow> CommandContext \<Rightarrow> ('raw, SetCommandArgs) cmd_args \<Rightarrow> 'w \<Rightarrow> ('raw Detail thrown + 'res) \<times> 'w)
   \<Rightarrow> ('raw, SetCommandArgs, 'res, 'raw Detail, 'w) Command" where
  "SetCommand String ex =
     \<lparr> name = ''SET'', arity_min = 2, arity_max = 2, isWrite = True,
       execute = ex, parse = Some (SetCommand_parse String) \<rparr>"

section \<open>EXPIRE\<close>


text \<open>The raw tokens: strings, numbers (integral or not), and the other primitives.\<close>

datatype raw = RStr string | RNum rat | RBool bool | RNull | RUndefined






section \<open>Concrete inputs\<close>

text \<open>A string entry written at instant 0, and a database run that uses every operation.\<close>

definition entry0 :: "string ValueEntry" where
  "entry0 = \<lparr> etype = String_t, evalue = ''v'', createdAt = 0, updatedAt = 0 \<rparr>"

definition ops0 :: "(int \<times> string db_op) list" where
  "ops0 = [(0, Set ''a'' entry0), (1, SetExpiry ''a'' 5), (2, SetExpiry ''b'' 9),
           (3, IsExpired ''a''), (4, Get ''a''), (4, Set ''c'' entry0), (4, SetExpiry ''c'' 6),
           (7, Get ''c''), (3, Delete ''d'')]"

text \<open>The database holding \<open>a\<close> with expiry instant 5.\<close>

definition db0 :: "string Database" where
  "db0 = Database_setExpiry ''a'' 5 (Database_set ''a'' entry0 Database_new)"

text \<open>An engine of two databases constructed on an empty store.\<close>

definition eng2 :: Engine where
  "eng2 = \<lparr> databases = [0, 1], dbCount = 2 \<rparr>"

definition st2 :: "string Database list" where
  "st2 = [Database_new, Database_new]"

text \<open>
  The upper-casing used with the concrete names below, all of them ASCII: on a string of
  ASCII characters \<^verbatim>\<open>toUpperCase\<close> moves the letters a to z (codes 97 to 122) down by
  32 and leaves every other character. It stands for the built-in on such strings
  only; the theorems about the registry and the dispatcher hold for every function.
\<close>

definition upper_ascii_char :: "char \<Rightarrow> char" where
  "upper_ascii_char c =
     (let n = (of_char c :: nat) in if 97 \<le> n \<and> n \<le> 122 then char_of (n - 32) else c)"

definition upper_ascii :: "string \<Rightarrow> string" where
  "upper_ascii s = map upper_ascii_char s"

text \<open>
  A dispatcher over string tokens, for which \<^verbatim>\<open>String\<close> is the identity. Its state is
  the number of \<^verbatim>\<open>execute\<close> calls made so far. Three commands are registered: SET as
  the source has it, a copy of it under the name \<open>set2\<close> whose \<^verbatim>\<open>parse\<close> runs with an
  empty array bound to \<^verbatim>\<open>errors\<close>, and \<open>echo\<close>, which has no \<^verbatim>\<open>parse\<close> and returns its
  raw arguments joined. The registry is the one that registering the three under
  \<open>upper_ascii\<close> gives.
\<close>

definition ex_ok ::
  "Engine \<Rightarrow> CommandContext \<Rightarrow> (string, SetCommandArgs) cmd_args \<Rightarrow> nat
   \<Rightarrow> (string Detail thrown + string) \<times> nat" where
  "ex_ok eng context args w = (Inr ''OK'', Suc w)"

definition ex_echo ::
  "Engine \<Rightarrow> CommandContext \<Rightarrow> (string, SetCommandArgs) cmd_args \<Rightarrow> nat
   \<Rightarrow> (string Detail thrown + string) \<times> nat" where
  "ex_echo eng context args w =
     (case args of RawArgs r \<Rightarrow> (Inr (concat r), Suc w)
                 | ParsedArgs a \<Rightarrow> (Inl (Error ''parsed''), Suc w))"

definition set_cmd :: "(string, SetCommandArgs, string, string Detail, nat) Command" where
  "set_cmd = SetCommand (\<lambda>s. s) ex_ok"

definition set2_cmd :: "(string, SetCommandArgs, string, string Detail, nat) Command" where
  "set2_cmd = set_cmd\<lparr> name := ''set2'', parse := Some (SetCommand_parse_scope (Some []) (\<lambda>s. s)) \<rparr>"

definition echo_cmd :: "(string, SetCommandArgs, string, string Detail, nat) Command" where
  "echo_cmd = \<lparr> name = ''echo'', arity_min = 0, arity_max = 1, isWrite = False,
                execute = ex_echo, parse = None \<rparr>"

definition reg0 :: "(string, SetCommandArgs, string, string Detail, nat) Registry" where
  "reg0 = \<lparr> commands = [''SET'' \<mapsto> set_cmd, ''SET2'' \<mapsto> set2_cmd, ''ECHO'' \<mapsto> echo_cmd] \<rparr>"

definition d0 :: "(string, SetCommandArgs, string, string Detail, nat) CommandDispatcher" where
  "d0 = \<lparr> engine = eng2, registry = reg0 \<rparr>"

definition ctx0 :: CommandContext where
  "ctx0 = \<lparr> dbIndex = 0, clientId = None \<rparr>"


section \<open>Properties of the database\<close>

lemma isExpired_iff:
  "Database_isExpired now key db \<longleftrightarrow> (\<exists>t. expirations db key = Some t \<and> t \<le> now)"
  by (simp add: Database_isExpired_def split: option.splits)

lemma get_absent_unchanged:
  assumes "keyspace db key = None" and "expirations db key = None"
  shows "Database_get now key db = (None, db)"
  using assms by (simp add: Database_get_def Database_isExpired_def)

lemma get_repeatedly_absent:
  assumes "keyspace db key = None" and "expirations db key = None"
  shows "get_repeatedly nows key db = (replicate (length nows) None, db)"
  using assms by (induction nows) (simp_all add: get_absent_unchanged)

lemma delete_clears:
  "keyspace (Database_delete key db) key = None"
  "expirations (Database_delete key db) key = None"
  by (simp_all add: Database_delete_def)

text \<open>
  C1. \<^verbatim>\<open>Database.get(k)\<close>: when \<open>k\<close> has a recorded expiry \<open>t\<close> and the clock reads
  \<open>now \<ge> t\<close>, the call returns absent and leaves the database with \<open>k\<close> removed from the
  keyspace and from the expirations, every other key as it was; any further calls on
  \<open>k\<close>, at whatever clock readings \<open>nows\<close>, all return absent too (the model has no
  error result, so none is raised). When \<open>k\<close> has no expiry, or one still in the future,
  the call returns the stored entry, or absent if there is none, and changes nothing.
\<close>

theorem C1_get_lazy_expiry:
  "(expirations db k = Some t \<and> t \<le> now \<longrightarrow>
      fst (Database_get now k db) = None
      \<and> keyspace (snd (Database_get now k db)) = (keyspace db)(k := None)
      \<and> expirations (snd (Database_get now k db)) = (expirations db)(k := None)
      \<and> fst (get_repeatedly (now # nows) k db) = replicate (Suc (length nows)) None)
   \<and> (expirations db k = None \<or> (\<exists>t'. expirations db k = Some t' \<and> now < t') \<longrightarrow>
      Database_get now k db = (keyspace db k, db))"
proof (intro conjI impI)
  assume live: "expirations db k = None \<or> (\<exists>t'. expirations db k = Some t' \<and> now < t')"
  then have "\<not> Database_isExpired now k db"
    by (auto simp: isExpired_iff)
  then show "Database_get now k db = (keyspace db k, db)"
    by (simp add: Database_get_def)
next
  assume "expirations db k = Some t \<and> t \<le> now"
  then have expired: "Database_isExpired now k db"
    by (auto simp: isExpired_iff)
  then have get: "Database_get now k db = (None, Database_delete k db)"
    by (simp add: Database_get_def)
  show "fst (Database_get now k db) = None"
    by (simp add: get)
  show "keyspace (snd (Database_get now k db)) = (keyspace db)(k := None)"
    by (simp add: get Database_delete_def)
  show "expirations (snd (Database_get now k db)) = (expirations db)(k := None)"
    by (simp add: get Database_delete_def)
  have "get_repeatedly nows k (Database_delete k db)
          = (replicate (length nows) None, Database_delete k db)"
    by (rule get_repeatedly_absent) (simp_all add: delete_clears)
  then show "fst (get_repeatedly (now # nows) k db) = replicate (Suc (length nows)) None"
    by (simp add: get)
qed

lemma db0_fields:
  "keyspace db0 = [''a'' \<mapsto> entry0]" "expirations db0 = [''a'' \<mapsto> 5]"
  by (simp_all add: db0_def Database_setExpiry_def Database_set_def Database_new_def)

theorem C1_get_lazy_expiry_witness:
  "expirations db0 ''a'' = Some 5
   \<and> fst (Database_get 7 ''a'' db0) = None
   \<and> keyspace (snd (Database_get 7 ''a'' db0)) = Map.empty
   \<and> expirations (snd (Database_get 7 ''a'' db0)) = Map.empty
   \<and> fst (get_repeatedly [7, 8, 3] ''a'' db0) = [None, None, None]
   \<and> Database_get 4 ''a'' db0 = (Some entry0, db0)
   \<and> Database_get 4 ''b'' db0 = (None, db0)"
  using C1_get_lazy_expiry [of db0 "''a''" 5 7 "[8, 3]"]
        C1_get_lazy_expiry [of db0 "''a''" 5 4 "[]"]
        C1_get_lazy_expiry [of db0 "''b''" 0 4 "[]"]
  by (simp add: db0_fields)

text \<open>
  C2. \<^verbatim>\<open>Database.set(k, e)\<close> replaces or creates the keyspace entry of \<open>k\<close>, leaves every
  other keyspace entry alone, and leaves the expirations mapping as it was: an expiry
  recorded for \<open>k\<close> before the call is recorded, with the same instant, after it.
\<close>

theorem C2_set_leaves_expirations:
  "keyspace (Database_set k e db) = (keyspace db)(k \<mapsto> e)
   \<and> expirations (Database_set k e db) = expirations db"
  by (simp add: Database_set_def)

lemma step_keeps_invariant:
  assumes "expirations_within_keyspace db"
  shows "expirations_within_keyspace (db_step now op db)"
proof (cases op)
  case (Get k)
  with assms show ?thesis
    by (auto simp: expirations_within_keyspace_def Database_get_def Database_delete_def
             split: if_splits)
next
  case (Set k e)
  with assms show ?thesis
    by (auto simp: expirations_within_keyspace_def Database_set_def)
next
  case (Delete k)
  with assms show ?thesis
    by (auto simp: expirations_within_keyspace_def Database_delete_def split: if_splits)
next
  case (SetExpiry k t)
  with assms show ?thesis
    by (auto simp: expirations_within_keyspace_def Database_setExpiry_def split: if_splits)
next
  case (IsExpired k)
  with assms show ?thesis by simp
qed

lemma run_keeps_invariant:
  "expirations_within_keyspace db \<Longrightarrow> expirations_within_keyspace (db_run ops db)"
  by (induction ops arbitrary: db) (auto simp: step_keeps_invariant)

lemma new_has_invariant: "expirations_within_keyspace Database_new"
  by (simp add: expirations_within_keyspace_def Database_new_def)

text \<open>
  C3. Every database reached from a freshly constructed one by any sequence of
  \<^verbatim>\<open>get\<close>, \<^verbatim>\<open>set\<close>, \<^verbatim>\<open>delete\<close>, \<^verbatim>\<open>setExpiry\<close> and \<^verbatim>\<open>isExpired\<close>, at any clock readings,
  has every key of its expirations in its keyspace. In such a database \<^verbatim>\<open>setExpiry\<close>
  of a key without an entry changes nothing, and \<^verbatim>\<open>delete\<close> removes the key from
  both mappings.
\<close>

theorem C3_expirations_within_keyspace:
  "expirations_within_keyspace (db_run ops Database_new)
   \<and> (keyspace (db_run ops Database_new) k = None \<longrightarrow>
        Database_setExpiry k t (db_run ops Database_new) = db_run ops Database_new)
   \<and> keyspace (Database_delete k (db_run ops Database_new)) k = None
   \<and> expirations (Database_delete k (db_run ops Database_new)) k = None"
  by (simp add: run_keeps_invariant new_has_invariant Database_setExpiry_def delete_clears)

lemma run_ops0:
  "db_run ops0 Database_new = \<lparr> keyspace = [''a'' \<mapsto> entry0], expirations = [''a'' \<mapsto> 5] \<rparr>"
  by (simp add: ops0_def Database_new_def Database_set_def Database_setExpiry_def
        Database_get_def Database_isExpired_def Database_delete_def fun_upd_twist)

theorem C3_expirations_within_keyspace_witness:
  "keyspace (db_run ops0 Database_new) ''b'' = None
   \<and> expirations (db_run ops0 Database_new) ''a'' = Some 5
   \<and> expirations_within_keyspace (db_run ops0 Database_new)
   \<and> Database_setExpiry ''b'' 9 (db_run ops0 Database_new) = db_run ops0 Database_new
   \<and> keyspace (Database_delete ''a'' (db_run ops0 Database_new)) ''a'' = None
   \<and> expirations (Database_delete ''a'' (db_run ops0 Database_new)) ''a'' = None"
  using C3_expirations_within_keyspace [of ops0 "''b''" 9]
        C3_expirations_within_keyspace [of ops0 "''a''" 9]
  by (simp add: run_ops0)

section \<open>Properties of the stored value\<close>

text \<open>
  C9. \<^verbatim>\<open>e.cloneWithValue(v)\<close>, for an entry \<open>e\<close> that exists (the reference \<open>this\<close> is
  in the store): the call returns a reference \<open>r\<close> to an entry with the type and the
  \<open>createdAt\<close> of \<open>e\<close>, the value \<open>v\<close>, and \<open>updatedAt\<close> equal to the clock reading of the
  call; \<open>r\<close> is a new instance, different from \<open>this\<close> and from every reference that
  existed before; \<open>e\<close> and every other existing entry are unchanged.
\<close>

theorem C9_cloneWithValue:
  assumes "this < length h"
  shows "case cloneWithValue_at now this v h of
           (r, h') \<Rightarrow>
             r \<noteq> this \<and> r \<ge> length h \<and> r < length h'
             \<and> etype (h' ! r) = etype (h ! this)
             \<and> createdAt (h' ! r) = createdAt (h ! this)
             \<and> evalue (h' ! r) = v
             \<and> updatedAt (h' ! r) = now
             \<and> h' ! this = h ! this
             \<and> take (length h) h' = h"
  using assms
  by (simp add: cloneWithValue_at_def alloc_def cloneWithValue_def ValueEntry_new_def nth_append)

theorem C9_cloneWithValue_witness:
  "(0::nat) < length [entry0]
   \<and> cloneWithValue_at 42 0 ''w'' [entry0]
       = (1, [entry0, \<lparr> etype = String_t, evalue = ''w'', createdAt = 0, updatedAt = 42 \<rparr>])"
  using C9_cloneWithValue [where this = 0 and h = "[entry0]" and now = 42 and v = "''w''"]
  by (simp add: cloneWithValue_at_def alloc_def cloneWithValue_def ValueEntry_new_def entry0_def)

section \<open>Properties of the engine\<close>

lemma new_databases_eq:
  "new_databases n st = ([length st ..< length st + n], st @ replicate n Database_new)"
proof (induction n arbitrary: st)
  case 0
  show ?case by simp
next
  case (Suc n)
  have "[length st ..< length st + Suc n] = length st # [Suc (length st) ..< Suc (length st) + n]"
    by (simp add: upt_conv_Cons)
  with Suc show ?case
    by (simp add: alloc_def replicate_app_Cons_same)
qed

lemma Engine_new_eq:
  "Engine_new c st =
     (\<lparr> databases = [length st ..< length st + nat (case c of None \<Rightarrow> DEFAULT_DB_COUNT | Some n \<Rightarrow> n)],
        dbCount = (case c of None \<Rightarrow> DEFAULT_DB_COUNT | Some n \<Rightarrow> n) \<rparr>,
      st @ replicate (nat (case c of None \<Rightarrow> DEFAULT_DB_COUNT | Some n \<Rightarrow> n)) Database_new)"
  by (simp add: Engine_new_def new_databases_eq Let_def)

lemma getDatabase_of_new:
  assumes "Engine_new c st0 = (eng, st1)" and "getDatabase eng i = Inr r"
  shows "r = Some (length st0 + nat i) \<and> 0 \<le> i \<and> length st0 + nat i < length st1
         \<and> st1 ! (length st0 + nat i) = Database_new"
proof -
  define n where "n = (case c of None \<Rightarrow> DEFAULT_DB_COUNT | Some m \<Rightarrow> m)"
  from assms(1) have eng: "eng = \<lparr> databases = [length st0 ..< length st0 + nat n], dbCount = n \<rparr>"
    and st1: "st1 = st0 @ replicate (nat n) Database_new"
    by (simp_all add: Engine_new_eq n_def)
  from assms(2) have range: "0 \<le> i" "i < n"
    by (auto simp: getDatabase_def eng split: if_splits)
  then have lt: "nat i < nat n" by simp
  with assms(2) range have "r = Some (length st0 + nat i)"
    by (simp add: getDatabase_def eng)
  moreover from lt have "length st0 + nat i < length st1"
    by (simp add: st1)
  moreover from lt have "st1 ! (length st0 + nat i) = Database_new"
    by (simp add: st1 nth_append)
  ultimately show ?thesis using range by simp
qed

text \<open>
  C10. In an engine made by its constructor, \<^verbatim>\<open>getDatabase(i)\<close> and \<^verbatim>\<open>getDatabase(j)\<close>
  for two different indices that both pass the range check return references \<open>a\<close> and
  \<open>b\<close> to two different databases of the store. Whatever the store holds later, a
  \<^verbatim>\<open>set\<close>, \<^verbatim>\<open>delete\<close> or \<^verbatim>\<open>setExpiry\<close> through \<open>a\<close> leaves the database behind \<open>b\<close> as it
  was, and so every \<^verbatim>\<open>get\<close> through \<open>b\<close> returns what it returned without the write.
\<close>

theorem C10_databases_disjoint:
  assumes "Engine_new c st0 = (eng, st1)"
    and "getDatabase eng i = Inr ri" and "getDatabase eng j = Inr rj" and "i \<noteq> j"
  shows "\<exists>a b. ri = Some a \<and> rj = Some b \<and> a \<noteq> b \<and> a < length st1 \<and> b < length st1
           \<and> (\<forall>st wr now k.
                 at_ref a (apply_write wr) st ! b = st ! b
                 \<and> Database_get now k (at_ref a (apply_write wr) st ! b) = Database_get now k (st ! b))"
proof -
  from getDatabase_of_new [OF assms(1) assms(2)]
  have i: "ri = Some (length st0 + nat i)" "0 \<le> i" "length st0 + nat i < length st1"
    by simp_all
  from getDatabase_of_new [OF assms(1) assms(3)]
  have j: "rj = Some (length st0 + nat j)" "0 \<le> j" "length st0 + nat j < length st1"
    by simp_all
  from i(2) j(2) assms(4) have neq: "length st0 + nat i \<noteq> length st0 + nat j"
    by simp
  with i j show ?thesis
    by (simp add: at_ref_def)
qed

lemma Engine_new_2: "Engine_new (Some 2) [] = (eng2, st2)"
  by (simp add: Engine_new_eq eng2_def st2_def upt_rec numeral_2_eq_2)

theorem C10_databases_disjoint_witness:
  "Engine_new (Some 2) [] = (eng2, st2)
   \<and> (getDatabase eng2 0 :: string thrown + nat option) = Inr (Some 0)
   \<and> (getDatabase eng2 1 :: string thrown + nat option) = Inr (Some 1)
   \<and> Database_get 3 ''a'' (at_ref 0 (apply_write (Write_set ''a'' entry0)) st2 ! 1)
       = Database_get 3 ''a'' (st2 ! 1)"
proof -
  have e: "Engine_new (Some 2) [] = (eng2, st2 :: string Database list)"
    by (rule Engine_new_2)
  have g0: "(getDatabase eng2 0 :: string thrown + nat option) = Inr (Some 0)"
    and g1: "(getDatabase eng2 1 :: string thrown + nat option) = Inr (Some 1)"
    by (simp_all add: getDatabase_def eng2_def)
  have "Database_get 3 ''a'' (at_ref 0 (apply_write (Write_set ''a'' entry0)) st2 ! 1)
          = Database_get 3 ''a'' (st2 ! 1)"
    using C10_databases_disjoint [OF e g0 g1] by auto
  with e g0 g1 show ?thesis
    by simp
qed

section \<open>Properties of the dispatcher\<close>

lemma register_all_dom:
  "register_all up cs reg = Inr reg' \<Longrightarrow>
     dom (commands reg') = dom (commands reg) \<union> (\<lambda>c. up (name c)) ` set cs"
proof (induction cs arbitrary: reg)
  case Nil
  then show ?case by simp
next
  case (Cons c cs)
  from Cons.prems obtain reg1 where
    r1: "Registry_register up c reg = Inr reg1" and rest: "register_all up cs reg1 = Inr reg'"
    by (auto split: sum.splits)
  from r1 have "dom (commands reg1) = insert (up (name c)) (dom (commands reg))"
    by (auto simp: Registry_register_def Let_def split: if_splits)
  with Cons.IH [OF rest] show ?case by auto
qed

lemma register_keeps:
  assumes "Registry_register up c' reg = Inr reg1" and "commands reg k = Some c"
  shows "commands reg1 k = Some c"
  using assms by (auto simp: Registry_register_def Let_def split: if_splits)

lemma register_all_keeps:
  "register_all up cs reg = Inr reg' \<Longrightarrow> commands reg k = Some c \<Longrightarrow> commands reg' k = Some c"
proof (induction cs arbitrary: reg)
  case Nil
  then show ?case by simp
next
  case (Cons c' cs)
  from Cons.prems(1) obtain reg1 where
    r1: "Registry_register up c' reg = Inr reg1" and rest: "register_all up cs reg1 = Inr reg'"
    by (auto split: sum.splits)
  from register_keeps [OF r1 Cons.prems(2)] have "commands reg1 k = Some c" .
  with Cons.IH [OF rest] show ?case by simp
qed

lemma register_all_finds:
  "register_all up cs reg = Inr reg' \<Longrightarrow> c \<in> set cs \<Longrightarrow> commands reg' (up (name c)) = Some c"
proof (induction cs arbitrary: reg)
  case Nil
  then show ?case by simp
next
  case (Cons c' cs)
  from Cons.prems(1) obtain reg1 where
    r1: "Registry_register up c' reg = Inr reg1" and rest: "register_all up cs reg1 = Inr reg'"
    by (auto split: sum.splits)
  show ?case
  proof (cases "c = c'")
    case True
    from r1 have "commands reg1 (up (name c')) = Some c'"
      by (auto simp: Registry_register_def Let_def split: if_splits)
    with register_all_keeps [OF rest] True show ?thesis by simp
  next
    case False
    with Cons.prems(2) have "c \<in> set cs" by simp
    with Cons.IH [OF rest] show ?thesis by simp
  qed
qed

lemma upper_examples:
  "upper_ascii ''SET'' = ''SET''" "upper_ascii ''set'' = ''SET''"
  "upper_ascii ''sEt'' = ''SET''"
  "upper_ascii ''set2'' = ''SET2''" "upper_ascii ''echo'' = ''ECHO''"
  "upper_ascii ''Echo'' = ''ECHO''" "upper_ascii ''NOPE'' = ''NOPE''"
  by code_simp+

lemma cmd_names: "name set_cmd = ''SET''" "name set2_cmd = ''set2''" "name echo_cmd = ''echo''"
  by (simp_all add: set_cmd_def set2_cmd_def echo_cmd_def SetCommand_def)

lemma register_reg0: "register_all upper_ascii [set_cmd, set2_cmd, echo_cmd] Registry_new = Inr reg0"
  by (simp add: Registry_register_def Registry_new_def reg0_def cmd_names upper_examples)

lemma reg0_get:
  "Registry_get upper_ascii ''NOPE'' reg0 = None"
  "Registry_get upper_ascii ''set'' reg0 = Some set_cmd"
  "Registry_get upper_ascii ''SET'' reg0 = Some set_cmd"
  "Registry_get upper_ascii ''set2'' reg0 = Some set2_cmd"
  "Registry_get upper_ascii ''Echo'' reg0 = Some echo_cmd"
  by (simp_all add: Registry_get_def reg0_def upper_examples)

lemma arity_examples:
  "arity_violated set_cmd [''k'']" "\<not> arity_violated set_cmd [''k'', ''v'']"
  "\<not> arity_violated set2_cmd [''k'', ''v'']" "\<not> arity_violated echo_cmd [''x'']"
  by (simp_all add: arity_violated_def set_cmd_def set2_cmd_def echo_cmd_def SetCommand_def)

lemma parse_examples:
  "SetCommand_parse (\<lambda>s. s) [''k'', ''v''] = Inl (ReferenceError ''errors'')"
  "SetCommand_parse_scope (Some []) (\<lambda>s. s) [''k'', ''v'']
     = Inr \<lparr> args_key = Some ''k'', args_value = Some ''v'' \<rparr>"
  by (simp_all add: SetCommand_parse_def SetCommand_parse_scope_def array_get_def)

lemma cmd_parses:
  "parse set_cmd = Some (SetCommand_parse (\<lambda>s. s))"
  "parse set2_cmd = Some (SetCommand_parse_scope (Some []) (\<lambda>s. s))" "parse echo_cmd = None"
  by (simp_all add: set_cmd_def set2_cmd_def echo_cmd_def SetCommand_def)

text \<open>
  C6. \<^verbatim>\<open>dispatch(commandName, rawArgs, context)\<close>, stage by stage, for whatever function
  \<^verbatim>\<open>toUpperCase\<close> is (\<open>up\<close>); two names are equal up to case when \<open>up\<close> maps them to the
  same string. (1) When the registry has no command under the upper-cased name, the
  call throws the unknown-command error carrying the requested name, and the state is
  untouched: no \<^verbatim>\<open>parse\<close> or \<^verbatim>\<open>execute\<close> of any command has a part in the result. In a
  registry filled by \<^verbatim>\<open>register\<close>, that is the case for every name that equals none of
  the registered names up to case; and a name that equals a registered command's name
  up to case finds that command. (2) For a found command whose arity check fails, the
  call throws the arity error with the state untouched, whatever the command's
  \<^verbatim>\<open>parse\<close> would do. (3) With the arity check passed and no \<^verbatim>\<open>parse\<close>, the result is that
  of \<^verbatim>\<open>execute\<close> on the raw arguments as they are. (4) What \<^verbatim>\<open>parse\<close> throws is what
  \<^verbatim>\<open>dispatch\<close> throws, with the state untouched. (5) Otherwise the result, a value or
  an error, is exactly that of \<^verbatim>\<open>execute\<close> on what \<^verbatim>\<open>parse\<close> returned.
\<close>

theorem C6_dispatch_order:
  fixes d :: "('raw, 'args, 'res, 'd, 'w) CommandDispatcher"
  shows
  "(Registry_get up nm (registry d) = None \<longrightarrow>
      dispatch up d nm rawArgs ctx w = (Inl (Thrown (UnknownCommandError_new nm)), w)
      \<and> error_name (UnknownCommandError_new nm :: 'd CommandError_obj) = UnknownCommandError
      \<and> command (meta (UnknownCommandError_new nm :: 'd CommandError_obj)) = Some nm)
   \<and> (register_all up cs Registry_new = Inr (registry d)
        \<and> (\<forall>c \<in> set cs. up (name c) \<noteq> up nm) \<longrightarrow>
      Registry_get up nm (registry d) = None)
   \<and> (register_all up cs Registry_new = Inr (registry d)
        \<and> c \<in> set cs \<and> up nm = up (name c) \<longrightarrow>
      Registry_get up nm (registry d) = Some c)
   \<and> (Registry_get up nm (registry d) = Some cmd \<and> arity_violated cmd rawArgs \<longrightarrow>
      dispatch up d nm rawArgs ctx w = (Inl (Thrown (ArityError_new nm None)), w))
   \<and> (Registry_get up nm (registry d) = Some cmd \<and> \<not> arity_violated cmd rawArgs
        \<and> parse cmd = None \<longrightarrow>
      dispatch up d nm rawArgs ctx w = execute cmd (engine d) ctx (RawArgs rawArgs) w)
   \<and> (Registry_get up nm (registry d) = Some cmd \<and> \<not> arity_violated cmd rawArgs
        \<and> parse cmd = Some p \<and> p rawArgs = Inl e \<longrightarrow>
      dispatch up d nm rawArgs ctx w = (Inl e, w))
   \<and> (Registry_get up nm (registry d) = Some cmd \<and> \<not> arity_violated cmd rawArgs
        \<and> parse cmd = Some p \<and> p rawArgs = Inr a \<longrightarrow>
      dispatch up d nm rawArgs ctx w = execute cmd (engine d) ctx (ParsedArgs a) w)"
proof (intro conjI impI)
  assume "register_all up cs Registry_new = Inr (registry d)
            \<and> (\<forall>c \<in> set cs. up (name c) \<noteq> up nm)"
  then have "dom (commands (registry d)) = (\<lambda>c. up (name c)) ` set cs"
    and "up nm \<notin> (\<lambda>c. up (name c)) ` set cs"
    using register_all_dom [of up cs Registry_new "registry d"]
    by (auto simp: Registry_new_def)
  then show "Registry_get up nm (registry d) = None"
    by (auto simp: Registry_get_def)
next
  assume "register_all up cs Registry_new = Inr (registry d) \<and> c \<in> set cs \<and> up nm = up (name c)"
  then show "Registry_get up nm (registry d) = Some c"
    using register_all_finds [of up cs Registry_new "registry d" c]
    by (simp add: Registry_get_def)
qed (simp_all add: dispatch_def UnknownCommandError_new_def CommandError_new_def no_meta_def)

theorem C6_dispatch_order_witness:
  "register_all upper_ascii [set_cmd, set2_cmd, echo_cmd] Registry_new = Inr (registry d0)
   \<and> Registry_get upper_ascii ''NOPE'' (registry d0) = None
   \<and> Registry_get upper_ascii ''sEt'' (registry d0) = Some set_cmd
   \<and> dispatch upper_ascii d0 ''NOPE'' [''x''] ctx0 0
       = (Inl (Thrown (UnknownCommandError_new ''NOPE'')), 0)
   \<and> dispatch upper_ascii d0 ''set'' [''k''] ctx0 0 = (Inl (Thrown (ArityError_new ''set'' None)), 0)
   \<and> dispatch upper_ascii d0 ''Echo'' [''x''] ctx0 0 = (Inr ''x'', 1)
   \<and> dispatch upper_ascii d0 ''SET'' [''k'', ''v''] ctx0 0 = (Inl (ReferenceError ''errors''), 0)
   \<and> dispatch upper_ascii d0 ''set2'' [''k'', ''v''] ctx0 0 = (Inr ''OK'', 1)"
proof -
  have reg: "registry d0 = reg0" "engine d0 = eng2"
    by (simp_all add: d0_def)
  have names: "\<forall>c \<in> set [set_cmd, set2_cmd, echo_cmd]. upper_ascii (name c) \<noteq> upper_ascii ''NOPE''"
    by (simp add: cmd_names upper_examples)
  have same: "set_cmd \<in> set [set_cmd, set2_cmd, echo_cmd]"
    "upper_ascii ''sEt'' = upper_ascii (name set_cmd)"
    by (simp_all add: cmd_names upper_examples)
  have execs: "execute echo_cmd eng2 ctx0 (RawArgs [''x'']) 0 = (Inr ''x'', 1)"
    "execute set2_cmd eng2 ctx0 (ParsedArgs \<lparr> args_key = Some ''k'', args_value = Some ''v'' \<rparr>) 0
       = (Inr ''OK'', 1)"
    by (simp_all add: set_cmd_def set2_cmd_def echo_cmd_def SetCommand_def ex_echo_def ex_ok_def)
  have regd: "register_all upper_ascii [set_cmd, set2_cmd, echo_cmd] Registry_new = Inr (registry d0)"
    by (simp only: reg register_reg0)
  have c0: "Registry_get upper_ascii ''NOPE'' (registry d0) = None"
    using C6_dispatch_order [where up = upper_ascii and nm = "''NOPE''" and d = d0
          and cs = "[set_cmd, set2_cmd, echo_cmd]"] regd names
    by blast
  have c0': "Registry_get upper_ascii ''sEt'' (registry d0) = Some set_cmd"
    using C6_dispatch_order [where up = upper_ascii and nm = "''sEt''" and d = d0
          and cs = "[set_cmd, set2_cmd, echo_cmd]" and c = set_cmd] regd same
    by blast
  have c1: "dispatch upper_ascii d0 ''NOPE'' [''x''] ctx0 0
              = (Inl (Thrown (UnknownCommandError_new ''NOPE'')), 0)"
    using C6_dispatch_order [where up = upper_ascii and nm = "''NOPE''" and d = d0
          and rawArgs = "[''x'']" and ctx = ctx0 and w = 0] c0
    by blast
  have c2: "dispatch upper_ascii d0 ''set'' [''k''] ctx0 0 = (Inl (Thrown (ArityError_new ''set'' None)), 0)"
    using C6_dispatch_order [where up = upper_ascii and nm = "''set''" and d = d0
          and rawArgs = "[''k'']" and ctx = ctx0 and w = 0 and cmd = set_cmd]
    by (simp add: reg reg0_get arity_examples del: register_all.simps)
  have c3: "dispatch upper_ascii d0 ''Echo'' [''x''] ctx0 0 = (Inr ''x'', 1)"
    using C6_dispatch_order [where up = upper_ascii and nm = "''Echo''" and d = d0
          and rawArgs = "[''x'']" and ctx = ctx0 and w = 0 and cmd = echo_cmd]
    by (simp add: reg reg0_get arity_examples cmd_parses execs del: register_all.simps)
  have c4: "dispatch upper_ascii d0 ''SET'' [''k'', ''v''] ctx0 0 = (Inl (ReferenceError ''errors''), 0)"
    using C6_dispatch_order [where up = upper_ascii and nm = "''SET''" and d = d0
          and rawArgs = "[''k'', ''v'']" and ctx = ctx0 and w = 0 and cmd = set_cmd
          and p = "SetCommand_parse (\<lambda>s. s)" and e = "ReferenceError ''errors''"]
    by (simp add: reg reg0_get arity_examples cmd_parses parse_examples del: register_all.simps)
  have c5: "dispatch upper_ascii d0 ''set2'' [''k'', ''v''] ctx0 0 = (Inr ''OK'', 1)"
    using C6_dispatch_order [where up = upper_ascii and nm = "''set2''" and d = d0
          and rawArgs = "[''k'', ''v'']" and ctx = ctx0 and w = 0 and cmd = set2_cmd
          and p = "SetCommand_parse_scope (Some []) (\<lambda>s. s)"
          and a = "\<lparr> args_key = Some ''k'', args_value = Some ''v'' \<rparr>"]
    by (simp add: reg reg0_get arity_examples cmd_parses parse_examples execs del: register_all.simps)
  from regd c0 c0' c1 c2 c3 c4 c5 show ?thesis
    by blast
qed

text \<open>
  C5, at a failing input: SET declares the arity 2 to 2 and is dispatched with one
  argument. The error is an arity error and carries the command name, but its message
  says \<open>expected 0..0, got 0\<close> and its \<open>argsCount\<close> is 0: \<^verbatim>\<open>dispatch\<close> calls
  \<^verbatim>\<open>new ArityError(commandName)\<close> without the second argument, so the constructor's
  default \<^verbatim>\<open>{ min: 0, max: 0, actual: 0 }\<close> stands in for the bounds and the count.
  This is so in the dispatcher of the three commands above, and, whatever function
  \<^verbatim>\<open>toUpperCase\<close> is (\<open>up\<close>), in the dispatcher whose registry is the one that
  registering SET alone gives.
\<close>

theorem C5_arity_error_without_bounds:
  "arity_min set_cmd = 2 \<and> arity_max set_cmd = 2 \<and> length [''k''] = 1
   \<and> dispatch upper_ascii d0 ''SET'' [''k''] ctx0 0 =
       (Inl (Thrown \<lparr> error_name = ArityError,
                      message = ''Wrong number of arguments for '' @ quote @ ''SET'' @ quote
                                @ '' (expected 0..0, got 0)'',
                      meta = \<lparr> command = Some ''SET'', meta_dbIndex = None,
                               meta_clientId = None, argsCount = Some 0 \<rparr>,
                      details = [] \<rparr>), 0)
   \<and> Registry_register up set_cmd Registry_new = Inr \<lparr> commands = [up ''SET'' \<mapsto> set_cmd] \<rparr>
   \<and> dispatch up \<lparr> engine = eng2, registry = \<lparr> commands = [up ''SET'' \<mapsto> set_cmd] \<rparr> \<rparr>
        ''SET'' [''k''] ctx0 0 =
       (Inl (Thrown \<lparr> error_name = ArityError,
                      message = ''Wrong number of arguments for '' @ quote @ ''SET'' @ quote
                                @ '' (expected 0..0, got 0)'',
                      meta = \<lparr> command = Some ''SET'', meta_dbIndex = None,
                               meta_clientId = None, argsCount = Some 0 \<rparr>,
                      details = [] \<rparr>), 0)"
proof -
  have "arity_min set_cmd = 2" "arity_max set_cmd = 2"
    by (simp_all add: set_cmd_def SetCommand_def)
  moreover have "dispatch upper_ascii d0 ''SET'' [''k''] ctx0 0
                   = (Inl (Thrown (ArityError_new ''SET'' None)), 0)"
    by (simp add: dispatch_def d0_def reg0_get arity_examples)
  moreover have "Registry_register up set_cmd Registry_new
                   = Inr \<lparr> commands = [up ''SET'' \<mapsto> set_cmd] \<rparr>"
    by (simp add: Registry_register_def Registry_new_def cmd_names)
  moreover have "dispatch up \<lparr> engine = eng2, registry = \<lparr> commands = [up ''SET'' \<mapsto> set_cmd] \<rparr> \<rparr>
        ''SET'' [''k''] ctx0 0 = (Inl (Thrown (ArityError_new ''SET'' None)), 0)"
    by (simp add: dispatch_def Registry_get_def arity_examples)
  ultimately show ?thesis
    by (simp add: ArityError_new_def CommandError_new_def no_meta_def show_int_def)
qed

section \<open>Properties of SET's parse\<close>

text \<open>
  C4, at a failing input: the two-element list of the key \<open>k\<close> and the empty string.
  As the file is, \<^verbatim>\<open>errors\<close> is bound nowhere and \<^verbatim>\<open>parse\<close> throws a
  \<^verbatim>\<open>ReferenceError\<close>, here and on every other list, also on two non-empty strings. With
  an empty array bound to \<^verbatim>\<open>errors\<close>, \<^verbatim>\<open>parse\<close> returns the pair for two non-empty
  strings, and still rejects the empty string with an invalid-argument error: the test
  \<^verbatim>\<open>if (!stringArg)\<close> takes it for an offending argument.
\<close>

theorem C4_parse_rejects_empty_string:
  "SetCommand_parse (\<lambda>s. s) [''k'', ''''] = Inl (ReferenceError ''errors'')
   \<and> SetCommand_parse (\<lambda>s. s) [''k'', ''v''] = Inl (ReferenceError ''errors'')
   \<and> SetCommand_parse_scope (Some []) (\<lambda>s. s) [''k'', ''v'']
       = Inr \<lparr> args_key = Some ''k'', args_value = Some ''v'' \<rparr>
   \<and> SetCommand_parse_scope (Some []) (\<lambda>s. s) [''k'', '''']
       = Inl (Thrown \<lparr> error_name = InvalidArgumentError,
                       message = ''Invalid argument(s) for SET command'',
                       meta = no_meta,
                       details = [DetailObject
                         (''Argument '' @ quote @ quote @ '' is not a valid string'') ''''] \<rparr>)"
  by (simp add: SetCommand_parse_def SetCommand_parse_scope_def array_get_def
        InvalidArgumentError_new_def CommandError_new_def addDetails_def)

section \<open>Properties of the errors\<close>

lemma addDetails_all_meta: "meta (addDetails_all calls e) = meta e"
  by (induction calls arbitrary: e) (simp_all add: addDetails_def split: sum.splits)

lemma addDetails_all_details:
  "details (addDetails_all calls e) = details e @ concat (map pushed calls)"
  by (induction calls arbitrary: e) (simp_all add: addDetails_def pushed_def split: sum.splits)

text \<open>
  C8, as the claim states it: no operation exposed by an error changes its details.
  It fails: \<^verbatim>\<open>addDetails\<close> is public and pushes onto \<^verbatim>\<open>details\<close>.
\<close>

theorem C8_details_change_counterexample:
  "details (addDetails (Inl ''x'') (CommandError_new CommandError ''m'' no_meta))
     \<noteq> details (CommandError_new CommandError ''m'' no_meta :: string CommandError_obj)"
  by (simp add: addDetails_def CommandError_new_def)

text \<open>
  C8, amended. After an error is created, no operation it exposes changes its metadata:
  after any calls of \<^verbatim>\<open>addDetails\<close> the metadata is the one frozen at creation. Its
  details do change: each call of \<^verbatim>\<open>addDetails\<close> appends what it is given, so that
  after any calls the details are the earlier ones followed by everything pushed, in
  call order. Identical invalid input always produces an error of the same kind with
  the same metadata shape: for a name that is not registered, for an argument list
  that fails the arity check and for one that \<^verbatim>\<open>parse\<close> rejects, the error that
  \<^verbatim>\<open>dispatch\<close> throws is the same in every state \<open>w\<close>, \<open>w'\<close>, under every context and
  with every engine; the unknown-command error has just \<open>command\<close> in its metadata,
  the arity error just \<open>command\<close> and \<open>argsCount\<close>.
\<close>

theorem C8_meta_frozen_details_grow:
  fixes d :: "('raw, 'args, 'res, 'd, 'w) CommandDispatcher"
    and e :: "'x CommandError_obj"
  shows
  "meta (addDetails_all calls e) = meta e
   \<and> details (addDetails_all calls e) = details e @ concat (map pushed calls)
   \<and> (Registry_get up nm (registry d) = None \<longrightarrow>
        fst (dispatch up d nm rawArgs ctx w) = Inl (Thrown (UnknownCommandError_new nm))
        \<and> fst (dispatch up (d\<lparr> engine := eng' \<rparr>) nm rawArgs ctx' w')
            = Inl (Thrown (UnknownCommandError_new nm))
        \<and> error_name (UnknownCommandError_new nm :: 'd CommandError_obj) = UnknownCommandError
        \<and> meta (UnknownCommandError_new nm :: 'd CommandError_obj)
            = \<lparr> command = Some nm, meta_dbIndex = None, meta_clientId = None, argsCount = None \<rparr>)
   \<and> (Registry_get up nm (registry d) = Some cmd \<and> arity_violated cmd rawArgs \<longrightarrow>
        fst (dispatch up d nm rawArgs ctx w) = Inl (Thrown (ArityError_new nm None))
        \<and> fst (dispatch up (d\<lparr> engine := eng' \<rparr>) nm rawArgs ctx' w')
            = Inl (Thrown (ArityError_new nm None))
        \<and> error_name (ArityError_new nm None :: 'd CommandError_obj) = ArityError
        \<and> meta (ArityError_new nm None :: 'd CommandError_obj)
            = \<lparr> command = Some nm, meta_dbIndex = None, meta_clientId = None, argsCount = Some 0 \<rparr>)
   \<and> (Registry_get up nm (registry d) = Some cmd \<and> \<not> arity_violated cmd rawArgs
        \<and> parse cmd = Some p \<and> p rawArgs = Inl err \<longrightarrow>
        fst (dispatch up d nm rawArgs ctx w) = Inl err
        \<and> fst (dispatch up (d\<lparr> engine := eng' \<rparr>) nm rawArgs ctx' w') = Inl err)"
  by (simp add: addDetails_all_meta addDetails_all_details dispatch_def
        UnknownCommandError_new_def ArityError_new_def CommandError_new_def no_meta_def)

theorem C8_meta_frozen_details_grow_witness:
  "meta (addDetails_all [Inl ''x'', Inr [''y'', ''z'']]
           (InvalidArgumentError_new ''m'' None :: string CommandError_obj)) = no_meta
   \<and> details (addDetails_all [Inl ''x'', Inr [''y'', ''z'']]
           (InvalidArgumentError_new ''m'' None :: string CommandError_obj)) = [''x'', ''y'', ''z'']
   \<and> fst (dispatch upper_ascii d0 ''NOPE'' [''x''] ctx0 0)
       = Inl (Thrown (UnknownCommandError_new ''NOPE''))
   \<and> fst (dispatch upper_ascii (d0\<lparr> engine := \<lparr> databases = [], dbCount = 0 \<rparr> \<rparr>) ''NOPE'' [''x'']
            \<lparr> dbIndex = 1, clientId = Some ''c'' \<rparr> 5)
       = Inl (Thrown (UnknownCommandError_new ''NOPE''))
   \<and> fst (dispatch upper_ascii d0 ''SET'' [''k''] ctx0 0)
       = Inl (Thrown (ArityError_new ''SET'' None))
   \<and> fst (dispatch upper_ascii (d0\<lparr> engine := \<lparr> databases = [], dbCount = 0 \<rparr> \<rparr>) ''SET'' [''k'']
            \<lparr> dbIndex = 1, clientId = Some ''c'' \<rparr> 5)
       = Inl (Thrown (ArityError_new ''SET'' None))
   \<and> fst (dispatch upper_ascii d0 ''SET'' [''k'', ''v''] ctx0 0) = Inl (ReferenceError ''errors'')
   \<and> fst (dispatch upper_ascii (d0\<lparr> engine := \<lparr> databases = [], dbCount = 0 \<rparr> \<rparr>) ''SET'' [''k'', ''v'']
            \<lparr> dbIndex = 1, clientId = Some ''c'' \<rparr> 5)
       = Inl (ReferenceError ''errors'')"
proof -
  have reg: "registry d0 = reg0"
    by (simp add: d0_def)
  have a: "meta (addDetails_all [Inl ''x'', Inr [''y'', ''z'']]
              (InvalidArgumentError_new ''m'' None :: string CommandError_obj)) = no_meta
      \<and> details (addDetails_all [Inl ''x'', Inr [''y'', ''z'']]
              (InvalidArgumentError_new ''m'' None :: string CommandError_obj)) = [''x'', ''y'', ''z'']"
    using C8_meta_frozen_details_grow [where calls = "[Inl ''x'', Inr [''y'', ''z'']]"
          and e = "InvalidArgumentError_new ''m'' None :: string CommandError_obj",
          THEN conjunct1]
      C8_meta_frozen_details_grow [where calls = "[Inl ''x'', Inr [''y'', ''z'']]"
          and e = "InvalidArgumentError_new ''m'' None :: string CommandError_obj",
          THEN conjunct2, THEN conjunct1]
    by (simp add: InvalidArgumentError_new_def CommandError_new_def pushed_def)
  have u: "fst (dispatch upper_ascii d0 ''NOPE'' [''x''] ctx0 0)
             = Inl (Thrown (UnknownCommandError_new ''NOPE''))
      \<and> fst (dispatch upper_ascii (d0\<lparr> engine := \<lparr> databases = [], dbCount = 0 \<rparr> \<rparr>) ''NOPE'' [''x'']
            \<lparr> dbIndex = 1, clientId = Some ''c'' \<rparr> 5)
             = Inl (Thrown (UnknownCommandError_new ''NOPE''))"
    using C8_meta_frozen_details_grow [where up = upper_ascii and d = d0 and nm = "''NOPE''"
          and rawArgs = "[''x'']" and ctx = ctx0 and w = 0
          and eng' = "\<lparr> databases = [], dbCount = 0 \<rparr>"
          and ctx' = "\<lparr> dbIndex = 1, clientId = Some ''c'' \<rparr>" and w' = 5,
          THEN conjunct2, THEN conjunct2, THEN conjunct1]
    by (simp add: reg reg0_get)
  have r: "fst (dispatch upper_ascii d0 ''SET'' [''k''] ctx0 0)
             = Inl (Thrown (ArityError_new ''SET'' None))
      \<and> fst (dispatch upper_ascii (d0\<lparr> engine := \<lparr> databases = [], dbCount = 0 \<rparr> \<rparr>) ''SET'' [''k'']
            \<lparr> dbIndex = 1, clientId = Some ''c'' \<rparr> 5)
             = Inl (Thrown (ArityError_new ''SET'' None))"
    using C8_meta_frozen_details_grow [where up = upper_ascii and d = d0 and nm = "''SET''"
          and rawArgs = "[''k'']" and ctx = ctx0 and w = 0 and cmd = set_cmd
          and eng' = "\<lparr> databases = [], dbCount = 0 \<rparr>"
          and ctx' = "\<lparr> dbIndex = 1, clientId = Some ''c'' \<rparr>" and w' = 5,
          THEN conjunct2, THEN conjunct2, THEN conjunct2, THEN conjunct1]
    by (simp add: reg reg0_get arity_examples)
  have p: "fst (dispatch upper_ascii d0 ''SET'' [''k'', ''v''] ctx0 0) = Inl (ReferenceError ''errors'')
      \<and> fst (dispatch upper_ascii (d0\<lparr> engine := \<lparr> databases = [], dbCount = 0 \<rparr> \<rparr>) ''SET'' [''k'', ''v'']
            \<lparr> dbIndex = 1, clientId = Some ''c'' \<rparr> 5) = Inl (ReferenceError ''errors'')"
    using C8_meta_frozen_details_grow [where up = upper_ascii and d = d0 and nm = "''SET''"
          and rawArgs = "[''k'', ''v'']" and ctx = ctx0 and w = 0 and cmd = set_cmd
          and p = "SetCommand_parse (\<lambda>s. s)" and err = "ReferenceError ''errors''"
          and eng' = "\<lparr> databases = [], dbCount = 0 \<rparr>"
          and ctx' = "\<lparr> dbIndex = 1, clientId = Some ''c'' \<rparr>" and w' = 5,
          THEN conjunct2, THEN conjunct2, THEN conjunct2, THEN conjunct2]
    by (simp add: reg reg0_get arity_examples cmd_parses parse_examples)
  from a u r p show ?thesis
    by blast
qed

section \<open>Properties of EXPIRE\<close>













end
